theory Spec2Isabelle
  imports Main "HOL-Library.Char_ord" "HOL-Library.List_Lexorder"
begin

section \<open>Values shared by the services and agents\<close>

text \<open>
  The exceptions the modelled code can raise. \<open>LLMError\<close> is a failure of
  \<open>LLMService.generate_text\<close> that survived its three attempts, \<open>VectorError\<close> a failure
  of the embedding call or of the index write in \<open>VectorService.upsert_email\<close>; the others
  are the Python exceptions of the same name.
\<close>

datatype error =
    LLMError
  | VectorError
  | ValueError
  | AttributeError
  | TypeError
  | ValidationError

text \<open>
  What \<open>json.loads\<close> returns. An object is the list of its items; a Python dict has
  distinct keys, and \<open>dict.get\<close> is the lookup \<open>dict_get\<close> below.
\<close>

datatype json =
    JNull
  | JBool bool
  | JNum int
  | JStr string
  | JArr "json list"
  | JObj "(string \<times> json) list"

definition dict_get :: "(string \<times> json) list \<Rightarrow> string \<Rightarrow> json \<Rightarrow> json" where
  "dict_get kvs k dflt = (case map_of kvs k of None \<Rightarrow> dflt | Some v \<Rightarrow> v)"

subsection \<open>Strings\<close>

text \<open>
  \<open>str.startswith\<close>, \<open>str.endswith\<close> and \<open>str.strip\<close>. Strings are byte strings here, so
  \<open>strip\<close> removes the ASCII characters for which \<open>str.isspace\<close> holds
  (codes 9 to 13 and 28 to 32).
\<close>

definition startswith :: "string \<Rightarrow> string \<Rightarrow> bool" where
  "startswith s p = (take (length p) s = p)"


definition isspace :: "char \<Rightarrow> bool" where
  "isspace c = (let n = (of_char c :: nat) in (9 \<le> n \<and> n \<le> 13) \<or> (28 \<le> n \<and> n \<le> 32))"

definition strip :: "string \<Rightarrow> string" where
  "strip s = rev (dropWhile isspace (rev (dropWhile isspace s)))"

subsection \<open>Datetimes and their ISO-8601 text\<close>

text \<open>
  A naive \<open>datetime\<close>, which is what \<open>datetime.now()\<close> gives: every timestamp of an
  \<open>Email\<close> or \<open>EmailDraft\<close> defaults to it. Python only builds datetimes that satisfy
  \<open>valid_datetime\<close>.
\<close>

record datetime =
  year :: nat
  month :: nat
  day :: nat
  hour :: nat
  minute :: nat
  second :: nat
  microsecond :: nat

definition is_leap :: "nat \<Rightarrow> bool" where
  "is_leap y = (y mod 4 = 0 \<and> (y mod 100 \<noteq> 0 \<or> y mod 400 = 0))"

definition days_in_month :: "nat \<Rightarrow> nat \<Rightarrow> nat" where
  "days_in_month y m =
     (if m = 2 then (if is_leap y then 29 else 28)
      else if m = 4 \<or> m = 6 \<or> m = 9 \<or> m = 11 then 30
      else 31)"

definition valid_datetime :: "datetime \<Rightarrow> bool" where
  "valid_datetime d =
     (1 \<le> year d \<and> year d \<le> 9999 \<and> 1 \<le> month d \<and> month d \<le> 12 \<and>
      1 \<le> day d \<and> day d \<le> days_in_month (year d) (month d) \<and>
      hour d < 24 \<and> minute d < 60 \<and> second d < 60 \<and> microsecond d < 1000000)"

text \<open>
  The models serialise a datetime with \<open>json_encoders = {datetime: lambda v: v.isoformat()}\<close>:
  \<open>YYYY-MM-DDTHH:MM:SS\<close>, followed by \<open>.ffffff\<close> when the microsecond is not zero.
\<close>

definition digit_char :: "nat \<Rightarrow> char" where
  "digit_char n = char_of (48 + n)"

definition pad2 :: "nat \<Rightarrow> string" where
  "pad2 n = [digit_char (n div 10 mod 10), digit_char (n mod 10)]"

definition pad4 :: "nat \<Rightarrow> string" where
  "pad4 n = pad2 (n div 100) @ pad2 (n mod 100)"

definition pad6 :: "nat \<Rightarrow> string" where
  "pad6 n = pad2 (n div 10000) @ pad4 (n mod 10000)"

definition isoformat :: "datetime \<Rightarrow> string" where
  "isoformat d =
     pad4 (year d) @ ''-'' @ pad2 (month d) @ ''-'' @ pad2 (day d) @ ''T'' @
     pad2 (hour d) @ '':'' @ pad2 (minute d) @ '':'' @ pad2 (second d) @
     (if microsecond d = 0 then [] else ''.'' @ pad6 (microsecond d))"

text \<open>
  Reading a timestamp back when a stored document is validated. The reader accepts the
  two shapes \<open>isoformat\<close> writes for a naive datetime and rejects a text whose fields are
  out of range; that is a \<open>ValidationError\<close> of the model.
\<close>

definition digit_val :: "char \<Rightarrow> nat option" where
  "digit_val c =
     (let n = (of_char c :: nat) in if 48 \<le> n \<and> n \<le> 57 then Some (n - 48) else None)"

fun digits_val :: "nat \<Rightarrow> string \<Rightarrow> nat option" where
  "digits_val acc [] = Some acc"
| "digits_val acc (c # cs) =
     (case digit_val c of None \<Rightarrow> None | Some v \<Rightarrow> digits_val (10 * acc + v) cs)"

definition field :: "string \<Rightarrow> nat \<Rightarrow> nat \<Rightarrow> nat option" where
  "field s pos len = digits_val 0 (take len (drop pos s))"

definition parse_datetime :: "string \<Rightarrow> datetime option" where
  "parse_datetime s =
     (if \<not> (length s = 19 \<or> (length s = 26 \<and> s ! 19 = CHR ''.'')) then None
      else if \<not> (s ! 4 = CHR ''-'' \<and> s ! 7 = CHR ''-'' \<and> s ! 10 = CHR ''T'' \<and>
                  s ! 13 = CHR '':'' \<and> s ! 16 = CHR '':'') then None
      else
        case (field s 0 4, field s 5 2, field s 8 2, field s 11 2, field s 14 2, field s 17 2,
              if length s = 19 then Some 0 else field s 20 6) of
          (Some y, Some mo, Some d, Some h, Some mi, Some sec, Some us) \<Rightarrow>
            (let dt = \<lparr>year = y, month = mo, day = d, hour = h, minute = mi, second = sec,
                       microsecond = us\<rparr>
             in if valid_datetime dt then Some dt else None)
        | _ \<Rightarrow> None)"

section \<open>Data model\<close>

datatype EmailCategory = URGENT | ACTION_REQUIRED | INFORMATIONAL | SPAM | UNCATEGORIZED

text \<open>The \<open>.value\<close> of a member, and the members in declaration order.\<close>

fun category_value :: "EmailCategory \<Rightarrow> string" where
  "category_value URGENT = ''URGENT''"
| "category_value ACTION_REQUIRED = ''ACTION_REQUIRED''"
| "category_value INFORMATIONAL = ''INFORMATIONAL''"
| "category_value SPAM = ''SPAM''"
| "category_value UNCATEGORIZED = ''UNCATEGORIZED''"

definition all_categories :: "EmailCategory list" where
  "all_categories = [URGENT, ACTION_REQUIRED, INFORMATIONAL, SPAM, UNCATEGORIZED]"

text \<open>
  The call \<open>EmailCategory(value)\<close>: the member whose value equals the argument, and
  \<open>ValueError\<close> when there is none. A value that is not a string equals no member's value.
\<close>

definition category_of_string :: "string \<Rightarrow> EmailCategory option" where
  "category_of_string s = find (\<lambda>c. category_value c = s) all_categories"

fun EmailCategory_call :: "json \<Rightarrow> error + EmailCategory" where
  "EmailCategory_call (JStr s) =
     (case category_of_string s of None \<Rightarrow> Inl ValueError | Some c \<Rightarrow> Inr c)"
| "EmailCategory_call v = Inl ValueError"

record ActionItem =
  description :: string
  priority :: string
  deadline :: "string option"
  completed :: bool

text \<open>
  \<open>category_reason\<close> is declared \<open>Optional[str]\<close>, but the models do not validate
  assignments, so after a categorisation the field holds whatever JSON value the result
  carried under \<open>reason\<close>; \<open>JNull\<close> is Python's \<open>None\<close>.
\<close>

record Email =
  email_id :: string
  sender :: string
  recipient :: string
  subject :: string
  body :: string
  timestamp :: datetime
  category :: EmailCategory
  category_reason :: json
  action_items :: "ActionItem list"
  has_attachments :: bool
  attachment_names :: "string list"
  thread_id :: "string option"
  is_read :: bool
  is_starred :: bool
  embedding_id :: "string option"

record EmailDraft =
  draft_id :: string
  original_email_id :: "string option"
  draft_recipient :: string
  draft_subject :: string
  draft_body :: string
  created_at :: datetime
  updated_at :: datetime
  draft_category :: "string option"
  draft_action_items :: "string list"
  suggested_followups :: "string list"
  is_sent :: bool
  is_saved :: bool

section \<open>DatabaseService\<close>

text \<open>
  A stored document is \<open>model_dump(mode='json')\<close> of the record: the timestamps are their
  ISO-8601 text and the category is its value. The fields of a document are typed as the
  record's are, except those three and \<open>category_reason\<close>.
\<close>

record email_doc =
  doc_id :: string
  doc_sender :: string
  doc_recipient :: string
  doc_subject :: string
  doc_body :: string
  doc_timestamp :: string
  doc_category :: string
  doc_category_reason :: json
  doc_action_items :: "ActionItem list"
  doc_has_attachments :: bool
  doc_attachment_names :: "string list"
  doc_thread_id :: "string option"
  doc_is_read :: bool
  doc_is_starred :: bool
  doc_embedding_id :: "string option"

record draft_doc =
  ddoc_id :: string
  ddoc_original_email_id :: "string option"
  ddoc_recipient :: string
  ddoc_subject :: string
  ddoc_body :: string
  ddoc_created_at :: string
  ddoc_updated_at :: string
  ddoc_category :: "string option"
  ddoc_action_items :: "string list"
  ddoc_suggested_followups :: "string list"
  ddoc_is_sent :: bool
  ddoc_is_saved :: bool

definition email_dump :: "Email \<Rightarrow> email_doc" where
  "email_dump e =
     \<lparr>doc_id = email_id e, doc_sender = sender e, doc_recipient = recipient e,
      doc_subject = subject e, doc_body = body e, doc_timestamp = isoformat (timestamp e),
      doc_category = category_value (category e), doc_category_reason = category_reason e,
      doc_action_items = action_items e, doc_has_attachments = has_attachments e,
      doc_attachment_names = attachment_names e, doc_thread_id = thread_id e,
      doc_is_read = is_read e, doc_is_starred = is_starred e,
      doc_embedding_id = embedding_id e\<rparr>"

text \<open>
  \<open>Email(**doc)\<close>: validation fails (\<open>None\<close>) on a timestamp that does not parse, on a
  category that is no member's value and on a reason that is neither a string nor null.
\<close>

definition valid_reason :: "json \<Rightarrow> bool" where
  "valid_reason v = (case v of JNull \<Rightarrow> True | JStr s \<Rightarrow> True | _ \<Rightarrow> False)"

definition Email_validate :: "email_doc \<Rightarrow> Email option" where
  "Email_validate d =
     (case parse_datetime (doc_timestamp d) of
        None \<Rightarrow> None
      | Some ts \<Rightarrow>
          (case category_of_string (doc_category d) of
             None \<Rightarrow> None
           | Some c \<Rightarrow>
               if valid_reason (doc_category_reason d) then
                 Some \<lparr>email_id = doc_id d, sender = doc_sender d, recipient = doc_recipient d,
                       subject = doc_subject d, body = doc_body d, timestamp = ts,
                       category = c, category_reason = doc_category_reason d,
                       action_items = doc_action_items d,
                       has_attachments = doc_has_attachments d,
                       attachment_names = doc_attachment_names d,
                       thread_id = doc_thread_id d, is_read = doc_is_read d,
                       is_starred = doc_is_starred d,
                       embedding_id = doc_embedding_id d\<rparr>
               else None))"

definition draft_dump :: "EmailDraft \<Rightarrow> draft_doc" where
  "draft_dump d =
     \<lparr>ddoc_id = draft_id d, ddoc_original_email_id = original_email_id d,
      ddoc_recipient = draft_recipient d, ddoc_subject = draft_subject d,
      ddoc_body = draft_body d, ddoc_created_at = isoformat (created_at d),
      ddoc_updated_at = isoformat (updated_at d), ddoc_category = draft_category d,
      ddoc_action_items = draft_action_items d,
      ddoc_suggested_followups = suggested_followups d,
      ddoc_is_sent = is_sent d, ddoc_is_saved = is_saved d\<rparr>"

definition EmailDraft_validate :: "draft_doc \<Rightarrow> EmailDraft option" where
  "EmailDraft_validate d =
     (case parse_datetime (ddoc_created_at d) of
        None \<Rightarrow> None
      | Some c \<Rightarrow>
          (case parse_datetime (ddoc_updated_at d) of
             None \<Rightarrow> None
           | Some u \<Rightarrow>
               Some \<lparr>draft_id = ddoc_id d, original_email_id = ddoc_original_email_id d,
                     draft_recipient = ddoc_recipient d, draft_subject = ddoc_subject d,
                     draft_body = ddoc_body d, created_at = c, updated_at = u,
                     draft_category = ddoc_category d,
                     draft_action_items = ddoc_action_items d,
                     suggested_followups = ddoc_suggested_followups d,
                     is_sent = ddoc_is_sent d, is_saved = ddoc_is_saved d\<rparr>))"

text \<open>
  The metadata \<open>process_email\<close> attaches to a vector, and the state the services share:
  the two collections in their natural order and the vector index by id. The embedding
  is a value of the type parameter.
\<close>

record metadata =
  meta_sender :: string
  meta_subject :: string
  meta_body_preview :: string
  meta_category :: string
  meta_timestamp :: string

record 'v state =
  emails :: "email_doc list"
  drafts :: "draft_doc list"
  index :: "string \<rightharpoonup> 'v \<times> metadata"

text \<open>
  \<open>update_one({"id": k}, {"$set": doc}, upsert=True)\<close>, where the document sets every
  field: the first document with that id is replaced, and the document is inserted when
  there is none. \<open>find_one({"id": k})\<close> is the first match.
\<close>

fun update_one :: "('d \<Rightarrow> string) \<Rightarrow> string \<Rightarrow> 'd \<Rightarrow> 'd list \<Rightarrow> 'd list" where
  "update_one key k new [] = [new]"
| "update_one key k new (d # ds) =
     (if key d = k then new # ds else d # update_one key k new ds)"

definition find_one :: "('d \<Rightarrow> string) \<Rightarrow> string \<Rightarrow> 'd list \<Rightarrow> 'd option" where
  "find_one key k ds = find (\<lambda>d. key d = k) ds"

definition save_email :: "Email \<Rightarrow> 'v state \<Rightarrow> string \<times> 'v state" where
  "save_email e st =
     (email_id e, st\<lparr>emails := update_one doc_id (email_id e) (email_dump e) (emails st)\<rparr>)"


text \<open>
  \<open>get_all_emails\<close>: the cursor sorts on the stored timestamp text, descending, then
  skips and limits (\<open>limit(0)\<close> is no limit); one document that fails validation makes
  the whole call return the empty list.
\<close>

fun validate_all :: "email_doc list \<Rightarrow> Email list option" where
  "validate_all [] = Some []"
| "validate_all (d # ds) =
     (case Email_validate d of
        None \<Rightarrow> None
      | Some e \<Rightarrow> (case validate_all ds of None \<Rightarrow> None | Some es \<Rightarrow> Some (e # es)))"

definition cursor_limit :: "nat \<Rightarrow> 'a list \<Rightarrow> 'a list" where
  "cursor_limit n xs = (if n = 0 then xs else take n xs)"

definition get_all_emails ::
  "'v state \<Rightarrow> nat \<Rightarrow> nat \<Rightarrow> EmailCategory option \<Rightarrow> Email list" where
  "get_all_emails st skip limit cat =
     (let matching =
            (case cat of
               None \<Rightarrow> emails st
             | Some c \<Rightarrow> filter (\<lambda>d. doc_category d = category_value c) (emails st));
          cursor = cursor_limit limit (drop skip (rev (sort_key doc_timestamp matching)))
      in case validate_all cursor of None \<Rightarrow> [] | Some es \<Rightarrow> es)"

text \<open>
  \<open>save_draft\<close> takes the reading of \<open>datetime.now()\<close> it makes; it returns the id, the
  draft object as the call leaves it, and the new state.
\<close>

definition save_draft ::
  "datetime \<Rightarrow> EmailDraft \<Rightarrow> 'v state \<Rightarrow> string \<times> EmailDraft \<times> 'v state" where
  "save_draft now d st =
     (let d' = d\<lparr>updated_at := now\<rparr>
      in (draft_id d', d',
          st\<lparr>drafts := update_one ddoc_id (draft_id d') (draft_dump d') (drafts st)\<rparr>))"

definition get_draft :: "'v state \<Rightarrow> string \<Rightarrow> EmailDraft option" where
  "get_draft st k =
     (case find_one ddoc_id k (drafts st) of None \<Rightarrow> None | Some d \<Rightarrow> EmailDraft_validate d)"

section \<open>LLMService\<close>





section \<open>CategorizationAgent\<close>

text \<open>
  \<open>categorize_single_email\<close>, given what its call of \<open>LLMService.categorize_email\<close>
  produced. The prompt it resolves only shapes the request. A result that is not a dict
  has no \<open>get\<close>; only \<open>ValueError\<close> is caught around the enum call.
\<close>

definition categorize_single_email ::
  "Email \<Rightarrow> error + json \<Rightarrow> 'v state \<Rightarrow> (error + Email) \<times> 'v state" where
  "categorize_single_email email llm_result st =
     (case llm_result of
        Inl e \<Rightarrow> (Inl e, st)
      | Inr (JObj kvs) \<Rightarrow>
          (let finish = (\<lambda>c.
                 let email' = email\<lparr>category := c,
                        category_reason := dict_get kvs ''reason'' (JStr ''No reason provided'')\<rparr>
                 in (Inr email', snd (save_email email' st)))
           in case EmailCategory_call (dict_get kvs ''category'' (JStr ''UNCATEGORIZED'')) of
                Inr c \<Rightarrow> finish c
              | Inl err \<Rightarrow> if err = ValueError then finish UNCATEGORIZED else (Inl err, st))
      | Inr _ \<Rightarrow> (Inl AttributeError, st))"

section \<open>ActionItemAgent\<close>

record aggregate_entry =
  entry_email_id :: string
  entry_email_subject :: string
  entry_email_sender :: string
  entry_action_item :: ActionItem

text \<open>\<open>priority_order.get(p, 3)\<close> with \<open>priority_order = {"High": 0, "Medium": 1, "Low": 2}\<close>.\<close>

definition priority_order :: "string \<Rightarrow> nat" where
  "priority_order p =
     (if p = ''High'' then 0 else if p = ''Medium'' then 1 else if p = ''Low'' then 2 else 3)"

definition entries_of :: "bool \<Rightarrow> Email \<Rightarrow> aggregate_entry list" where
  "entries_of include_completed email =
     map (\<lambda>a. \<lparr>entry_email_id = email_id email, entry_email_subject = subject email,
                entry_email_sender = sender email, entry_action_item = a\<rparr>)
         (filter (\<lambda>a. include_completed \<or> \<not> completed a) (action_items email))"

text \<open>The list before the sort, and \<open>get_all_action_items\<close>; \<open>list.sort\<close> is stable.\<close>

definition collect_action_items :: "'v state \<Rightarrow> bool \<Rightarrow> aggregate_entry list" where
  "collect_action_items st include_completed =
     concat (map (entries_of include_completed) (get_all_emails st 0 1000 None))"

definition get_all_action_items :: "'v state \<Rightarrow> bool \<Rightarrow> aggregate_entry list" where
  "get_all_action_items st include_completed =
     sort_key (\<lambda>x. priority_order (priority (entry_action_item x)))
       (collect_action_items st include_completed)"



text \<open>\<open>get_action_items_by_priority\<close> calls \<open>get_all_action_items()\<close> with its default.\<close>

definition get_action_items_by_priority :: "'v state \<Rightarrow> string \<Rightarrow> aggregate_entry list" where
  "get_action_items_by_priority st p =
     filter (\<lambda>item. priority (entry_action_item item) = p) (get_all_action_items st False)"

section \<open>DraftAgent\<close>

text \<open>
  What a call of \<open>generate_reply_draft\<close> draws from its environment: the id and the two
  timestamps the \<open>EmailDraft\<close> defaults produce, and the clock reading of \<open>save_draft\<close>.
\<close>

record fresh =
  fresh_id :: string
  fresh_created :: datetime
  fresh_updated :: datetime
  fresh_saved :: datetime

text \<open>
  \<open>generate_reply_draft\<close>, given the outcome of the \<open>generate_text\<close> call inside
  \<open>draft_reply\<close> and the list \<open>_generate_followups\<close> returned (it catches its own
  failures).
\<close>

definition reply_subject :: "string \<Rightarrow> string" where
  "reply_subject s = (if startswith s ''Re: '' then s else ''Re: '' @ s)"

definition generate_reply_draft ::
  "fresh \<Rightarrow> Email \<Rightarrow> error + string \<Rightarrow> string list \<Rightarrow> 'v state \<Rightarrow>
     (error + EmailDraft) \<times> 'v state" where
  "generate_reply_draft env original_email generated followups st =
     (case generated of
        Inl e \<Rightarrow> (Inl e, st)
      | Inr response \<Rightarrow>
          (let draft =
                 \<lparr>draft_id = fresh_id env, original_email_id = Some (email_id original_email),
                  draft_recipient = sender original_email,
                  draft_subject = reply_subject (subject original_email),
                  draft_body = strip response,
                  created_at = fresh_created env, updated_at = fresh_updated env,
                  draft_category = Some (category_value (category original_email)),
                  draft_action_items = map description (action_items original_email),
                  suggested_followups = followups, is_sent = False, is_saved = True\<rparr>;
               saved = save_draft (fresh_saved env) draft st
           in (Inr (fst (snd saved)), snd (snd saved))))"

section \<open>EmailService\<close>

text \<open>
  \<open>[ActionItem(**item) for item in action_items]\<close>: the value is iterated (a dict gives
  its keys, a string its characters), and each element must be a mapping whose fields
  validate. The validation of the keyword arguments is the parameter \<open>validate\<close>.
\<close>

fun iterate :: "json \<Rightarrow> error + json list" where
  "iterate (JArr xs) = Inr xs"
| "iterate (JObj kvs) = Inr (map (\<lambda>kv. JStr (fst kv)) kvs)"
| "iterate (JStr s) = Inr (map (\<lambda>c. JStr [c]) s)"
| "iterate v = Inl TypeError"

fun make_item :: "((string \<times> json) list \<Rightarrow> ActionItem option) \<Rightarrow> json \<Rightarrow> error + ActionItem" where
  "make_item validate (JObj kvs) =
     (case validate kvs of None \<Rightarrow> Inl ValidationError | Some a \<Rightarrow> Inr a)"
| "make_item validate v = Inl TypeError"

fun make_items ::
  "((string \<times> json) list \<Rightarrow> ActionItem option) \<Rightarrow> json list \<Rightarrow> error + ActionItem list" where
  "make_items validate [] = Inr []"
| "make_items validate (x # xs) =
     (case make_item validate x of
        Inl e \<Rightarrow> Inl e
      | Inr a \<Rightarrow> (case make_items validate xs of Inl e \<Rightarrow> Inl e | Inr as \<Rightarrow> Inr (a # as)))"

text \<open>
  \<open>process_email\<close>, given the results of its two LLM service calls and the outcome of the
  embedding and index write. Nothing around \<open>EmailCategory(...)\<close> catches its
  \<open>ValueError\<close>.
\<close>

definition process_email ::
  "((string \<times> json) list \<Rightarrow> ActionItem option) \<Rightarrow> Email \<Rightarrow> error + json \<Rightarrow> error + json \<Rightarrow>
     error + 'v \<Rightarrow> 'v state \<Rightarrow> (error + Email) \<times> 'v state" where
  "process_email validate email category_result action_items_result embedded st =
     (case category_result of
        Inl e \<Rightarrow> (Inl e, st)
      | Inr (JObj kvs) \<Rightarrow>
          (case EmailCategory_call (dict_get kvs ''category'' (JStr ''UNCATEGORIZED'')) of
             Inl e \<Rightarrow> (Inl e, st)
           | Inr c \<Rightarrow>
               (case action_items_result of
                  Inl e \<Rightarrow> (Inl e, st)
                | Inr data \<Rightarrow>
                    (case iterate data of
                       Inl e \<Rightarrow> (Inl e, st)
                     | Inr xs \<Rightarrow>
                         (case make_items validate xs of
                            Inl e \<Rightarrow> (Inl e, st)
                          | Inr items \<Rightarrow>
                              (let email' = email\<lparr>category := c,
                                     category_reason := dict_get kvs ''reason'' (JStr []),
                                     action_items := items\<rparr>;
                                   st' = snd (save_email email' st);
                                   meta = \<lparr>meta_sender = sender email',
                                           meta_subject = subject email',
                                           meta_body_preview = take 200 (body email'),
                                           meta_category = category_value (category email'),
                                           meta_timestamp = isoformat (timestamp email')\<rparr>
                               in case embedded of
                                    Inl e \<Rightarrow> (Inl e, st')
                                  | Inr v \<Rightarrow>
                                      (Inr (email'\<lparr>embedding_id := Some (email_id email')\<rparr>),
                                       st'\<lparr>index := (index st')(email_id email' \<mapsto> (v, meta))\<rparr>))))))
      | Inr _ \<Rightarrow> (Inl AttributeError, st))"

section \<open>Sample values\<close>

text \<open>A store with nothing in it, and an email and a draft as the tests build them.\<close>

definition empty_state :: "nat state" where
  "empty_state = \<lparr>emails = [], drafts = [], index = Map.empty\<rparr>"

definition sample_time :: datetime where
  "sample_time = \<lparr>year = 2024, month = 2, day = 29, hour = 13, minute = 5, second = 9,
                   microsecond = 1234\<rparr>"

definition later_time :: datetime where
  "later_time = \<lparr>year = 2024, month = 3, day = 1, hour = 8, minute = 30, second = 0,
                  microsecond = 0\<rparr>"

definition sample_email :: Email where
  "sample_email =
     \<lparr>email_id = ''test_001'', sender = ''test@example.com'', recipient = ''user@company.com'',
      subject = ''Test Subject'', body = ''This is a test email body with some content.'',
      timestamp = sample_time, category = UNCATEGORIZED, category_reason = JNull,
      action_items = [], has_attachments = False, attachment_names = [], thread_id = None,
      is_read = False, is_starred = False, embedding_id = None\<rparr>"

definition sample_draft :: EmailDraft where
  "sample_draft =
     \<lparr>draft_id = ''draft_001'', original_email_id = None, draft_recipient = ''test@example.com'',
      draft_subject = ''Test Subject'', draft_body = ''This is a new draft.'',
      created_at = sample_time, updated_at = sample_time, draft_category = None,
      draft_action_items = [], suggested_followups = [], is_sent = False, is_saved = True\<rparr>"

text \<open>
  A validator for the examples: a description is required, the other fields take their
  defaults when absent, and every field present must have its declared JSON type.
\<close>

definition strict_item :: "(string \<times> json) list \<Rightarrow> ActionItem option" where
  "strict_item kvs =
     (case (map_of kvs ''description'', dict_get kvs ''priority'' (JStr ''Medium''),
            dict_get kvs ''deadline'' JNull, dict_get kvs ''completed'' (JBool False)) of
        (Some (JStr d), JStr p, JNull, JBool b) \<Rightarrow>
          Some \<lparr>description = d, priority = p, deadline = None, completed = b\<rparr>
      | (Some (JStr d), JStr p, JStr dl, JBool b) \<Rightarrow>
          Some \<lparr>description = d, priority = p, deadline = Some dl, completed = b\<rparr>
      | _ \<Rightarrow> None)"

text \<open>A store holding one email with five action items, and a parser that knows two texts.\<close>

definition sample_items :: "ActionItem list" where
  "sample_items =
     [\<lparr>description = ''Archive thread'', priority = ''Low'', deadline = None, completed = False\<rparr>,
      \<lparr>description = ''Send report'', priority = ''High'', deadline = None, completed = True\<rparr>,
      \<lparr>description = ''Call vendor'', priority = ''Someday'', deadline = None, completed = False\<rparr>,
      \<lparr>description = ''Book room'', priority = ''High'', deadline = Some ''Friday'',
        completed = False\<rparr>,
      \<lparr>description = ''Review budget'', priority = ''Medium'', deadline = None,
        completed = False\<rparr>]"

definition sample_state :: "nat state" where
  "sample_state =
     \<lparr>emails = [email_dump (sample_email\<lparr>action_items := sample_items\<rparr>)], drafts = [],
      index = Map.empty\<rparr>"


definition sample_fresh :: fresh where
  "sample_fresh = \<lparr>fresh_id = ''draft_002'', fresh_created = sample_time,
                    fresh_updated = sample_time, fresh_saved = later_time\<rparr>"

section \<open>Properties of the ISO-8601 text\<close>

text \<open>
  Each padded field reads back as the number it was written from, so a valid datetime
  survives \<open>isoformat\<close> followed by \<open>parse_datetime\<close>.
\<close>

lemma digit_val_digit_char: "n < 10 \<Longrightarrow> digit_val (digit_char n) = Some n"
  by (simp add: digit_val_def digit_char_def)

lemma digits_pad2: "n < 100 \<Longrightarrow> digits_val 0 (pad2 n) = Some n"
  by (simp add: pad2_def digit_val_digit_char)

lemma digits_pad4: "n < 10000 \<Longrightarrow> digits_val 0 (pad4 n) = Some n"
  by (simp add: pad4_def pad2_def digit_val_digit_char)

lemma digits_pad6: "n < 1000000 \<Longrightarrow> digits_val 0 (pad6 n) = Some n"
  by (simp add: pad6_def pad4_def pad2_def digit_val_digit_char)

lemma length_pad2: "length (pad2 n) = 2"
  by (simp add: pad2_def)

lemma length_pad4: "length (pad4 n) = 4"
  by (simp add: pad4_def pad2_def)

lemma length_pad6: "length (pad6 n) = 6"
  by (simp add: pad6_def pad4_def pad2_def)

lemmas length_pads = length_pad2 length_pad4 length_pad6

lemma length_isoformat:
  "length (isoformat d) = (if microsecond d = 0 then 19 else 26)"
  by (simp add: isoformat_def length_pads)

lemma isoformat_seps:
  "isoformat d ! 4 = CHR ''-''" "isoformat d ! 7 = CHR ''-''" "isoformat d ! 10 = CHR ''T''"
  "isoformat d ! 13 = CHR '':''" "isoformat d ! 16 = CHR '':''"
  "microsecond d \<noteq> 0 \<Longrightarrow> isoformat d ! 19 = CHR ''.''"
  by (simp_all add: isoformat_def nth_append length_pads)

lemma isoformat_fields:
  "field (isoformat d) 0 4 = digits_val 0 (pad4 (year d))"
  "field (isoformat d) 5 2 = digits_val 0 (pad2 (month d))"
  "field (isoformat d) 8 2 = digits_val 0 (pad2 (day d))"
  "field (isoformat d) 11 2 = digits_val 0 (pad2 (hour d))"
  "field (isoformat d) 14 2 = digits_val 0 (pad2 (minute d))"
  "field (isoformat d) 17 2 = digits_val 0 (pad2 (second d))"
  "microsecond d \<noteq> 0 \<Longrightarrow> field (isoformat d) 20 6 = digits_val 0 (pad6 (microsecond d))"
  by (simp_all add: isoformat_def field_def length_pads)

lemma days_in_month_le: "days_in_month y m \<le> 31"
  by (simp add: days_in_month_def)

lemma parse_isoformat:
  assumes "valid_datetime d"
  shows "parse_datetime (isoformat d) = Some d"
proof -
  from assms have b: "year d < 10000" "month d < 100" "day d < 100" "hour d < 100"
    "minute d < 100" "second d < 100" "microsecond d < 1000000"
    using days_in_month_le [of "year d" "month d"] by (auto simp: valid_datetime_def)
  have "parse_datetime (isoformat d) =
    (let dt = \<lparr>year = year d, month = month d, day = day d, hour = hour d, minute = minute d,
       second = second d, microsecond = microsecond d\<rparr>
     in if valid_datetime dt then Some dt else None)"
    using b
    by (cases "microsecond d = 0")
      (simp_all add: parse_datetime_def length_isoformat isoformat_seps isoformat_fields
        digits_pad2 digits_pad4 digits_pad6 del: datetime.simps)
  with assms show ?thesis by (cases d) simp
qed


section \<open>Properties of the stored documents\<close>

lemma category_of_string_value: "category_of_string (category_value c) = Some c"
  by (cases c) (simp_all add: category_of_string_def all_categories_def)

lemma category_of_string_Some: "category_of_string s = Some c \<Longrightarrow> category_value c = s"
  by (auto simp: category_of_string_def all_categories_def split: if_splits)


lemma EmailCategory_call_cases:
  "EmailCategory_call v = Inl ValueError \<and> (\<forall>c. v \<noteq> JStr (category_value c)) \<or>
   (\<exists>c. EmailCategory_call v = Inr c \<and> v = JStr (category_value c))"
proof (cases v)
  case (JStr s)
  then show ?thesis
    by (cases "category_of_string s")
      (auto simp: category_of_string_value dest: category_of_string_Some)
qed simp_all


lemma find_one_update_one:
  "key new = k \<Longrightarrow> find_one key k (update_one key k new ds) = Some new"
  by (induction ds) (auto simp: find_one_def)


lemma Email_validate_dump:
  "valid_datetime (timestamp e) \<Longrightarrow> valid_reason (category_reason e) \<Longrightarrow>
     Email_validate (email_dump e) = Some e"
  by (cases e) (simp add: Email_validate_def email_dump_def parse_isoformat category_of_string_value)


lemma EmailDraft_validate_dump:
  "valid_datetime (created_at d) \<Longrightarrow> valid_datetime (updated_at d) \<Longrightarrow>
     EmailDraft_validate (draft_dump d) = Some d"
  by (cases d) (simp add: EmailDraft_validate_def draft_dump_def parse_isoformat)

section \<open>Properties of the action-item aggregate\<close>



lemma entries_of_pending:
  "filter (\<lambda>x. \<not> completed (entry_action_item x)) (entries_of True e) = entries_of False e"
  by (simp add: entries_of_def filter_map comp_def)

lemma collect_pending:
  "filter (\<lambda>x. \<not> completed (entry_action_item x)) (collect_action_items st True) =
     collect_action_items st False"
  by (simp add: collect_action_items_def filter_concat comp_def entries_of_pending)

lemma get_all_action_items_pending:
  "get_all_action_items st False =
     filter (\<lambda>x. \<not> completed (entry_action_item x)) (get_all_action_items st True)"
  by (simp add: get_all_action_items_def filter_sort collect_pending)

lemma sorted_key_index:
  assumes "sorted (map f xs)" and "i < length xs" and "j < length xs" and "f (xs ! i) < f (xs ! j)"
  shows "i < j"
proof (rule ccontr)
  assume "\<not> i < j"
  then have "j \<le> i" by simp
  with assms(1,2) have "map f xs ! j \<le> map f xs ! i"
    by (simp add: sorted_iff_nth_mono del: nth_map)
  with assms(2,3,4) show False by simp
qed

lemma sort_key_stable_on:
  "filter (\<lambda>x. g x = p) (sort_key (\<lambda>x. f (g x)) xs) = filter (\<lambda>x. g x = p) xs"
proof -
  have "filter (\<lambda>x. g x = p) (sort_key (\<lambda>x. f (g x)) xs) =
      filter (\<lambda>x. g x = p) (filter (\<lambda>x. f (g x) = f p) (sort_key (\<lambda>x. f (g x)) xs))"
    by (simp add: conj_commute cong: conj_cong)
  also have "\<dots> = filter (\<lambda>x. g x = p) (filter (\<lambda>x. f (g x) = f p) xs)"
    by (simp only: sort_key_stable)
  also have "\<dots> = filter (\<lambda>x. g x = p) xs"
    by (simp add: conj_commute cong: conj_cong)
  finally show ?thesis .
qed

lemma sort_by_priority_stable:
  "filter (\<lambda>x. priority (entry_action_item x) = p)
     (sort_key (\<lambda>x. priority_order (priority (entry_action_item x))) xs) =
   filter (\<lambda>x. priority (entry_action_item x) = p) xs"
  by (fact sort_key_stable_on [of "\<lambda>x. priority (entry_action_item x)" p priority_order xs])

section \<open>The sample store\<close>

lemma valid_sample_time: "valid_datetime sample_time"
  by (simp add: valid_datetime_def sample_time_def days_in_month_def is_leap_def)

lemma valid_later_time: "valid_datetime later_time"
  by (simp add: valid_datetime_def later_time_def days_in_month_def)

lemma sample_state_emails:
  "get_all_emails sample_state 0 1000 None = [sample_email\<lparr>action_items := sample_items\<rparr>]"
proof -
  have "Email_validate (email_dump (sample_email\<lparr>action_items := sample_items\<rparr>)) =
      Some (sample_email\<lparr>action_items := sample_items\<rparr>)"
    by (rule Email_validate_dump)
      (simp_all add: sample_email_def valid_sample_time valid_reason_def)
  then show ?thesis
    by (simp add: get_all_emails_def sample_state_def cursor_limit_def)
qed


lemma not_a_category: "''IMPORTANT'' \<noteq> category_value c"
  by (cases c) simp_all

section \<open>Categorisation\<close>





text \<open>
  C9. \<open>process_email\<close> does not coerce: on a result dict whose category label is no
  member's value it raises \<open>ValueError\<close> and returns the state it was given, so the
  email is neither saved nor indexed, whatever the later steps would have produced. On
  the same result \<open>categorize_single_email\<close> succeeds with \<open>UNCATEGORIZED\<close>.
\<close>

theorem process_email_invalid_category:
  assumes "\<forall>c. dict_get kvs ''category'' (JStr ''UNCATEGORIZED'') \<noteq> JStr (category_value c)"
  shows "process_email validate email (Inr (JObj kvs)) action_items_result embedded st =
      (Inl ValueError, st) \<and>
    (\<exists>email'. categorize_single_email email (Inr (JObj kvs)) st =
       (Inr email', snd (save_email email' st)) \<and> category email' = UNCATEGORIZED)"
proof -
  let ?v = "dict_get kvs ''category'' (JStr ''UNCATEGORIZED'')"
  from assms EmailCategory_call_cases [of ?v] have v: "EmailCategory_call ?v = Inl ValueError"
    by blast
  then have "process_email validate email (Inr (JObj kvs)) action_items_result embedded st =
      (Inl ValueError, st)"
    by (simp add: process_email_def)
  moreover from v have "categorize_single_email email (Inr (JObj kvs)) st =
      (Inr (email\<lparr>category := UNCATEGORIZED,
          category_reason := dict_get kvs ''reason'' (JStr ''No reason provided'')\<rparr>),
       snd (save_email (email\<lparr>category := UNCATEGORIZED,
          category_reason := dict_get kvs ''reason'' (JStr ''No reason provided'')\<rparr>) st))"
    by (simp add: categorize_single_email_def Let_def)
  ultimately show ?thesis by simp
qed

text \<open>
  An instance: the label \<open>IMPORTANT\<close> on the sample email and the empty store.
\<close>

theorem process_email_invalid_category_witness:
  "process_email strict_item sample_email (Inr (JObj [(''category'', JStr ''IMPORTANT'')]))
     (Inr (JArr [])) (Inr 7) empty_state = (Inl ValueError, empty_state)"
proof -
  have h: "\<forall>c. dict_get [(''category'', JStr ''IMPORTANT'')] ''category'' (JStr ''UNCATEGORIZED'')
      \<noteq> JStr (category_value c)"
    using not_a_category by (simp add: dict_get_def)
  from process_email_invalid_category [of "[(''category'', JStr ''IMPORTANT'')]" strict_item
      sample_email "Inr (JArr [])" "Inr 7" empty_state] h
  show ?thesis by blast
qed

section \<open>Action items\<close>



text \<open>
  C4. The list \<open>get_all_action_items\<close> returns is sorted on the rank of the priority
  (High 0, Medium 1, Low 2, any other string 3): an entry of lower rank stands before
  every entry of higher rank. The sort is stable: the entries of any one priority keep
  the order in which they were collected, and the result has the collected entries and
  no others.
\<close>

theorem get_all_action_items_sorted_stable:
  "sorted (map (\<lambda>x. priority_order (priority (entry_action_item x)))
       (get_all_action_items st include_completed)) \<and>
   (\<forall>i j. i < length (get_all_action_items st include_completed) \<and>
      j < length (get_all_action_items st include_completed) \<and>
      priority_order (priority (entry_action_item (get_all_action_items st include_completed ! i)))
        < priority_order (priority (entry_action_item (get_all_action_items st include_completed ! j)))
      \<longrightarrow> i < j) \<and>
   priority_order ''High'' = 0 \<and> priority_order ''Medium'' = 1 \<and> priority_order ''Low'' = 2 \<and>
   (\<forall>p. p \<noteq> ''High'' \<and> p \<noteq> ''Medium'' \<and> p \<noteq> ''Low'' \<longrightarrow> priority_order p = 3) \<and>
   (\<forall>p. filter (\<lambda>x. priority (entry_action_item x) = p)
          (get_all_action_items st include_completed) =
        filter (\<lambda>x. priority (entry_action_item x) = p)
          (collect_action_items st include_completed)) \<and>
   length (get_all_action_items st include_completed) =
     length (collect_action_items st include_completed) \<and>
   set (get_all_action_items st include_completed) =
     set (collect_action_items st include_completed)"
proof -
  let ?r = "get_all_action_items st include_completed"
  let ?key = "\<lambda>x. priority_order (priority (entry_action_item x))"
  have s: "sorted (map ?key ?r)"
    by (simp add: get_all_action_items_def)
  have idx: "\<forall>i j. i < length ?r \<and> j < length ?r \<and> ?key (?r ! i) < ?key (?r ! j) \<longrightarrow> i < j"
    using sorted_key_index [OF s] by blast
  have stable: "\<forall>p. filter (\<lambda>x. priority (entry_action_item x) = p) ?r =
      filter (\<lambda>x. priority (entry_action_item x) = p) (collect_action_items st include_completed)"
    by (simp add: get_all_action_items_def sort_by_priority_stable)
  have perm: "length ?r = length (collect_action_items st include_completed)"
    "set ?r = set (collect_action_items st include_completed)"
    by (simp_all add: get_all_action_items_def)
  have table: "priority_order ''High'' = 0" "priority_order ''Medium'' = 1"
    "priority_order ''Low'' = 2"
    "\<forall>p. p \<noteq> ''High'' \<and> p \<noteq> ''Medium'' \<and> p \<noteq> ''Low'' \<longrightarrow> priority_order p = 3"
    by (simp_all add: priority_order_def)
  show ?thesis
    by (intro conjI) (fact s idx table stable perm)+
qed

text \<open>
  An instance: the five items of the sample store, collected in the order Low, High,
  other, High, Medium.
\<close>

theorem get_all_action_items_sorted_stable_witness:
  "map (\<lambda>x. description (entry_action_item x)) (get_all_action_items sample_state True) =
     [''Send report'', ''Book room'', ''Review budget'', ''Archive thread'', ''Call vendor''] \<and>
   sorted (map (\<lambda>x. priority_order (priority (entry_action_item x)))
     (get_all_action_items sample_state True))"
proof -
  have "map (\<lambda>x. description (entry_action_item x)) (get_all_action_items sample_state True) =
     [''Send report'', ''Book room'', ''Review budget'', ''Archive thread'', ''Call vendor'']"
    by (simp add: get_all_action_items_def collect_action_items_def sample_state_emails
        entries_of_def sample_items_def priority_order_def)
  with get_all_action_items_sorted_stable [of sample_state True] show ?thesis by simp
qed

text \<open>
  C5. With \<open>include_completed\<close> false, no entry of the aggregate is completed.
\<close>

theorem get_all_action_items_excludes_completed:
  "\<forall>x \<in> set (get_all_action_items st False). \<not> completed (entry_action_item x)"
  by (auto simp: get_all_action_items_def collect_action_items_def entries_of_def)

text \<open>
  An instance: the sample store has a completed item, and the four pending ones are
  returned.
\<close>

theorem get_all_action_items_excludes_completed_witness:
  "get_all_action_items sample_state False \<noteq> [] \<and>
   \<not> completed (entry_action_item (hd (get_all_action_items sample_state False))) \<and>
   (\<exists>x \<in> set (get_all_action_items sample_state True). completed (entry_action_item x))"
proof -
  have "length (get_all_action_items sample_state False) = 4"
    by (simp add: get_all_action_items_def collect_action_items_def sample_state_emails
        entries_of_def sample_items_def)
  then have a: "get_all_action_items sample_state False \<noteq> []" by auto
  then have m: "hd (get_all_action_items sample_state False) \<in>
      set (get_all_action_items sample_state False)"
    by simp
  have b: "\<exists>x \<in> set (get_all_action_items sample_state True). completed (entry_action_item x)"
    by (simp add: get_all_action_items_def collect_action_items_def sample_state_emails
        entries_of_def sample_items_def)
  from a b m get_all_action_items_excludes_completed [of sample_state] show ?thesis by blast
qed

text \<open>
  C8. \<open>get_action_items_by_priority\<close> filters the aggregate it gets from
  \<open>get_all_action_items()\<close>, whose default leaves completed items out. Relative to the
  full aggregate it returns, in order and unchanged, the entries of the given priority
  that are not completed.
\<close>

theorem get_action_items_by_priority_pending_filter:
  "get_action_items_by_priority st p =
     filter (\<lambda>x. priority (entry_action_item x) = p \<and> \<not> completed (entry_action_item x))
       (get_all_action_items st True)"
  by (simp add: get_action_items_by_priority_def get_all_action_items_pending conj_commute)

text \<open>
  An instance: of the two High items of the sample store only the pending one is
  returned.
\<close>

theorem get_action_items_by_priority_pending_filter_witness:
  "map (\<lambda>x. description (entry_action_item x))
     (get_action_items_by_priority sample_state ''High'') = [''Book room'']"
proof -
  have "map (\<lambda>x. description (entry_action_item x))
      (filter (\<lambda>x. priority (entry_action_item x) = ''High'' \<and> \<not> completed (entry_action_item x))
        (get_all_action_items sample_state True)) = [''Book room'']"
    by (simp add: get_all_action_items_def collect_action_items_def sample_state_emails
        entries_of_def sample_items_def priority_order_def)
  with get_action_items_by_priority_pending_filter [of sample_state "''High''"]
  show ?thesis by simp
qed

text \<open>
  The result is not the filter of the full aggregate: the sample store has a completed
  High item, which the full aggregate contains and the result lacks.
\<close>

theorem get_action_items_by_priority_counterexample:
  "get_action_items_by_priority sample_state ''High'' \<noteq>
     filter (\<lambda>x. priority (entry_action_item x) = ''High'') (get_all_action_items sample_state True)"
proof -
  have "length (get_action_items_by_priority sample_state ''High'') = 1"
    by (simp add: get_action_items_by_priority_def get_all_action_items_def
        collect_action_items_def sample_state_emails entries_of_def sample_items_def
        priority_order_def)
  moreover have "length (filter (\<lambda>x. priority (entry_action_item x) = ''High'')
      (get_all_action_items sample_state True)) = 2"
    by (simp add: get_all_action_items_def collect_action_items_def sample_state_emails
        entries_of_def sample_items_def priority_order_def)
  ultimately show ?thesis by auto
qed

section \<open>Drafts\<close>

text \<open>
  C6. A successful \<open>generate_reply_draft\<close> returns and stores a draft whose subject is
  the original subject when that starts with \<open>Re: \<close>, and the original subject
  prefixed with \<open>Re: \<close> otherwise.
\<close>

theorem generate_reply_draft_subject:
  "\<exists>draft st'. generate_reply_draft env original_email (Inr response) followups st =
       (Inr draft, st') \<and>
     draft_subject draft =
       (if startswith (subject original_email) ''Re: '' then subject original_email
        else ''Re: '' @ subject original_email) \<and>
     find_one ddoc_id (draft_id draft) (drafts st') = Some (draft_dump draft)"
proof -
  obtain k p st' where s: "save_draft (fresh_saved env)
     \<lparr>draft_id = fresh_id env, original_email_id = Some (email_id original_email),
      draft_recipient = sender original_email,
      draft_subject = reply_subject (subject original_email),
      draft_body = strip response,
      created_at = fresh_created env, updated_at = fresh_updated env,
      draft_category = Some (category_value (category original_email)),
      draft_action_items = map description (action_items original_email),
      suggested_followups = followups, is_sent = False, is_saved = True\<rparr> st = (k, p, st')"
    by (metis prod_cases3)
  then have g: "generate_reply_draft env original_email (Inr response) followups st = (Inr p, st')"
    by (simp add: generate_reply_draft_def Let_def)
  from s have subj: "draft_subject p = reply_subject (subject original_email)"
    and st': "drafts st' = update_one ddoc_id (draft_id p) (draft_dump p) (drafts st)"
    by (auto simp: save_draft_def Let_def)
  have "find_one ddoc_id (draft_id p) (drafts st') = Some (draft_dump p)"
    using st' find_one_update_one [of ddoc_id "draft_dump p" "draft_id p" "drafts st"]
    by (simp add: draft_dump_def)
  with g subj show ?thesis by (auto simp: reply_subject_def)
qed

text \<open>
  The two subjects of the specification: \<open>Status Update\<close> gets the prefix,
  \<open>Re: Status Update\<close> is kept.
\<close>

theorem generate_reply_draft_subject_witness:
  "(\<exists>draft st'. generate_reply_draft sample_fresh (sample_email\<lparr>subject := ''Status Update''\<rparr>)
       (Inr ''Thanks, noted.'') [] empty_state = (Inr draft, st') \<and>
     draft_subject draft = ''Re: Status Update'') \<and>
   (\<exists>draft st'. generate_reply_draft sample_fresh (sample_email\<lparr>subject := ''Re: Status Update''\<rparr>)
       (Inr ''Thanks, noted.'') [] empty_state = (Inr draft, st') \<and>
     draft_subject draft = ''Re: Status Update'')"
  using generate_reply_draft_subject [of sample_fresh "sample_email\<lparr>subject := ''Status Update''\<rparr>"
      "''Thanks, noted.''" "[]" empty_state]
    generate_reply_draft_subject [of sample_fresh "sample_email\<lparr>subject := ''Re: Status Update''\<rparr>"
      "''Thanks, noted.''" "[]" empty_state]
  by (simp add: startswith_def) blast

text \<open>
  C7. A draft saved by \<open>save_draft\<close> and reloaded by \<open>get_draft\<close> under the returned
  id is the draft as it was persisted, in every field; the ISO-8601 text of its two
  timestamps parses back to them.
\<close>

theorem save_draft_get_draft_roundtrip:
  assumes "valid_datetime (created_at d)" and "valid_datetime now"
    and "save_draft now d st = (k, p, st')"
  shows "get_draft st' k = Some p \<and>
    parse_datetime (isoformat (created_at p)) = Some (created_at p) \<and>
    parse_datetime (isoformat (updated_at p)) = Some (updated_at p)"
proof -
  from assms(3) have p: "p = d\<lparr>updated_at := now\<rparr>" and k: "k = draft_id d"
    and st': "drafts st' = update_one ddoc_id (draft_id d) (draft_dump p) (drafts st)"
    by (auto simp: save_draft_def Let_def)
  have v: "valid_datetime (created_at p)" "valid_datetime (updated_at p)"
    using assms(1,2) p by simp_all
  have key: "ddoc_id (draft_dump p) = draft_id d"
    using p by (simp add: draft_dump_def)
  have "get_draft st' k = EmailDraft_validate (draft_dump p)"
    using k st' find_one_update_one [of ddoc_id "draft_dump p" "draft_id d" "drafts st", OF key]
    by (simp add: get_draft_def)
  with v show ?thesis
    by (simp add: EmailDraft_validate_dump parse_isoformat)
qed

text \<open>
  An instance: the sample draft saved into the empty store.
\<close>

theorem save_draft_get_draft_roundtrip_witness:
  "get_draft (snd (snd (save_draft later_time sample_draft empty_state))) ''draft_001'' =
     Some (sample_draft\<lparr>updated_at := later_time\<rparr>)"
proof -
  have c: "valid_datetime (created_at sample_draft)"
    by (simp add: sample_draft_def valid_sample_time)
  have s: "save_draft later_time sample_draft empty_state =
      (''draft_001'', sample_draft\<lparr>updated_at := later_time\<rparr>,
       snd (snd (save_draft later_time sample_draft empty_state)))"
    by (simp add: save_draft_def Let_def sample_draft_def)
  from save_draft_get_draft_roundtrip [OF c valid_later_time s] show ?thesis by simp
qed



end
